theory Spec2Isabelle
  imports Complex_Main
begin

section \<open>Funk matrix factorisation (creme/reco/funk\_mf.py)\<close>

text \<open>
  The class \<open>FunkMF\<close> keeps one latent vector per user and per item, predicts a rating as
  their inner product and, for each observation, moves both vectors along the gradient of
  a loss with L2 regularisation and gradient clipping.

  Numbers are numpy floats in the source; they are idealised as \<open>real\<close> here, and a latent
  vector (a one-dimensional numpy array) is a list of reals. The two \<open>defaultdict\<close>s are
  maps from keys to vectors together with the factory that fills a missing key.
\<close>

subsection \<open>Numeric layer\<close>

datatype error = ValueError | LossError

type_synonym vec = "real list"

type_synonym 'k latents = "'k \<rightharpoonup> vec"

text \<open>
  \<open>np.dot\<close> of two one-dimensional arrays: the sum of the products when the lengths
  agree, a \<open>ValueError\<close> (shapes not aligned) otherwise.
\<close>

definition np_dot :: "vec \<Rightarrow> vec \<Rightarrow> error + real" where
  "np_dot a b =
     (if length a = length b then Inr (sum_list (map2 (*) a b)) else Inl ValueError)"

text \<open>A scalar times an array, \<open>c * v\<close>.\<close>

definition np_scale :: "real \<Rightarrow> vec \<Rightarrow> vec" where
  "np_scale c v = map ((*) c) v"

text \<open>
  The sum of two one-dimensional arrays. Equal lengths add elementwise; an array of
  length one is broadcast along the other; any other pair of lengths is a \<open>ValueError\<close>.
\<close>

definition np_add :: "vec \<Rightarrow> vec \<Rightarrow> error + vec" where
  "np_add a b =
     (if length a = length b then Inr (map2 (+) a b)
      else if length a = 1 then Inr (map ((+) (hd a)) b)
      else if length b = 1 then Inr (map (\<lambda>x. x + hd b) a)
      else Inl ValueError)"

text \<open>
  Modelled from the spec: \<open>utils.math.clamp\<close> is not part of the sources at hand. The
  specification calls it a hard clamp of the value between \<open>minimum\<close> and \<open>maximum\<close>.
\<close>

definition clamp :: "real \<Rightarrow> real \<Rightarrow> real \<Rightarrow> real" where
  "clamp x minimum maximum = max (min x maximum) minimum"

subsection \<open>The collaborators from \<open>optim\<close>\<close>

text \<open>
  The package \<open>optim\<close> (optimizers, losses, initializers) is used by \<open>FunkMF\<close> but is not
  part of the sources at hand, so what \<open>FunkMF\<close> takes from it is a parameter:
  \<^item> \<open>SGD\<close>: the internal state of a freshly constructed \<open>optim.SGD()\<close>;
  \<^item> \<open>update_after_pred\<close>: the optimizer's method; from the optimizer's state, the
    weights \<open>w\<close> and the gradients \<open>g\<close> it gives the new weights and the new state;
  \<^item> \<open>Squared\<close>: the method \<open>gradient(y_true, y_pred)\<close> of \<open>optim.losses.Squared()\<close>;
  \<^item> \<open>Normal\<close>: the call of \<open>optim.initializers.Normal(mu=0., sigma=.1, random_state)\<close>
    with a shape; it reads and advances the state of its random generator.
  A loss may raise, so its gradient is a sum type; \<open>'s\<close> is the type of optimizer
  states and \<open>'r\<close> the type of generator states.
\<close>

record ('k, 'r, 's) optim =
  SGD :: 's
  update_after_pred :: "'s \<Rightarrow> 'k latents \<Rightarrow> 'k latents \<Rightarrow> 'k latents \<times> 's"
  Squared :: "real \<Rightarrow> real \<Rightarrow> error + real"
  Normal :: "'r \<Rightarrow> nat \<Rightarrow> vec \<times> 'r"

subsection \<open>The model object\<close>

text \<open>
  The fields of \<open>self\<close>. An optimizer is an object with mutable state, and the two fields
  \<open>u_optimizer\<close> and \<open>i_optimizer\<close> are references to such objects: \<open>optimizers\<close> is the
  store of optimizer objects, from references to their states. The initializer is one
  object too; both \<open>defaultdict\<close>s call it through the same \<open>functools.partial\<close>, and
  \<open>rng\<close> is its generator's state.
\<close>

record ('k, 'r, 's) FunkMF =
  n_factors :: nat
  u_optimizer :: nat
  i_optimizer :: nat
  optimizers :: "nat \<Rightarrow> 's"
  optimizer_update :: "'s \<Rightarrow> 'k latents \<Rightarrow> 'k latents \<Rightarrow> 'k latents \<times> 's"
  loss :: "real \<Rightarrow> real \<Rightarrow> error + real"
  l2 :: real
  initializer :: "'r \<Rightarrow> nat \<Rightarrow> vec \<times> 'r"
  rng :: 'r
  clip_gradient :: real
  u_latents :: "'k latents"
  i_latents :: "'k latents"

text \<open>
  \<open>__init__\<close>. With \<open>optimizer=None\<close> two optimizers are constructed, one per side; a
  given optimizer is stored in both fields, so both refer to the one object. A given
  initializer comes with the state of its generator; the default one is seeded with
  \<open>random_state\<close>. The field \<open>rng\<close> is the state of the generator behind the model's
  initializer: for one model that is the whole story. The source keeps a reference to
  the initializer object, so several models can hold one generator; such programs keep
  the generators in a store of their own (see the generator objects below).
\<close>

definition FunkMF_init ::
  "('k, 'r, 's) optim \<Rightarrow> nat \<Rightarrow> 's option \<Rightarrow> (real \<Rightarrow> real \<Rightarrow> error + real) option \<Rightarrow> real \<Rightarrow>
   (('r \<Rightarrow> nat \<Rightarrow> vec \<times> 'r) \<times> 'r) option \<Rightarrow> real \<Rightarrow> 'r \<Rightarrow> ('k, 'r, 's) FunkMF" where
  "FunkMF_init opt n optimizer ls reg ini clip random_state =
     \<lparr> n_factors = n,
       u_optimizer = 0,
       i_optimizer = (case optimizer of None \<Rightarrow> 1 | Some s \<Rightarrow> 0),
       optimizers = (case optimizer of
                       None \<Rightarrow> (\<lambda>r. SGD opt)
                     | Some s \<Rightarrow> (\<lambda>r. s)),
       optimizer_update = update_after_pred opt,
       loss = (case ls of None \<Rightarrow> Squared opt | Some f \<Rightarrow> f),
       l2 = reg,
       initializer = (case ini of None \<Rightarrow> Normal opt | Some (f, r) \<Rightarrow> f),
       rng = (case ini of None \<Rightarrow> random_state | Some (f, r) \<Rightarrow> r),
       clip_gradient = clip,
       u_latents = Map.empty,
       i_latents = Map.empty \<rparr>"

text \<open>
  Reading \<open>self.u_latents[key]\<close> and \<open>self.i_latents[key]\<close>: a \<open>defaultdict\<close> returns the
  stored vector, and for a missing key calls the factory
  \<open>functools.partial(self.initializer, shape=self.n_factors)\<close>, stores what it returns
  under the key and returns it.
\<close>

definition u_getitem :: "('k, 'r, 's) FunkMF \<Rightarrow> 'k \<Rightarrow> vec \<times> ('k, 'r, 's) FunkMF" where
  "u_getitem m k =
     (case u_latents m k of
        Some v \<Rightarrow> (v, m)
      | None \<Rightarrow>
          (let (v, r) = initializer m (rng m) (n_factors m)
           in (v, m\<lparr>rng := r, u_latents := (u_latents m)(k \<mapsto> v)\<rparr>)))"

definition i_getitem :: "('k, 'r, 's) FunkMF \<Rightarrow> 'k \<Rightarrow> vec \<times> ('k, 'r, 's) FunkMF" where
  "i_getitem m k =
     (case i_latents m k of
        Some v \<Rightarrow> (v, m)
      | None \<Rightarrow>
          (let (v, r) = initializer m (rng m) (n_factors m)
           in (v, m\<lparr>rng := r, i_latents := (i_latents m)(k \<mapsto> v)\<rparr>)))"

text \<open>
  \<open>_predict_one\<close>: the user's vector is read first, then the item's, then \<open>np.dot\<close>. The
  model after the two reads is returned with the value, also when \<open>np.dot\<close> raises.
\<close>

definition predict_one ::
  "('k, 'r, 's) FunkMF \<Rightarrow> 'k \<Rightarrow> 'k \<Rightarrow> (error + real) \<times> ('k, 'r, 's) FunkMF" where
  "predict_one m user item =
     (let (u, m1) = u_getitem m user;
          (i, m2) = i_getitem m1 item
      in (np_dot u i, m2))"

text \<open>
  The two optimizer calls of \<open>_fit_one\<close>: the optimizer object behind the reference is
  run on the current latents and the gradient dictionary; the latents returned replace
  the field and the object keeps its new state.
\<close>

definition u_update :: "('k, 'r, 's) FunkMF \<Rightarrow> 'k latents \<Rightarrow> ('k, 'r, 's) FunkMF" where
  "u_update m g =
     (let (w, s) = optimizer_update m (optimizers m (u_optimizer m)) (u_latents m) g
      in m\<lparr>optimizers := (optimizers m)(u_optimizer m := s), u_latents := w\<rparr>)"

definition i_update :: "('k, 'r, 's) FunkMF \<Rightarrow> 'k latents \<Rightarrow> ('k, 'r, 's) FunkMF" where
  "i_update m g =
     (let (w, s) = optimizer_update m (optimizers m (i_optimizer m)) (i_latents m) g
      in m\<lparr>optimizers := (optimizers m)(i_optimizer m := s), i_latents := w\<rparr>)"

text \<open>
  The first half of \<open>_fit_one\<close>, up to the two gradient dictionaries: the prediction, the
  gradient of the loss, the clamp, then \<open>u_latent_grad\<close> (which reads the item's vector,
  then the user's) and \<open>i_latent_grad\<close> (the user's, then the item's). The result is the
  pair of gradient vectors, or the error raised, and the model as the reads left it.
\<close>

definition latent_grads ::
  "('k, 'r, 's) FunkMF \<Rightarrow> 'k \<Rightarrow> 'k \<Rightarrow> real \<Rightarrow> (error + vec \<times> vec) \<times> ('k, 'r, 's) FunkMF" where
  "latent_grads m user item y =
     (case predict_one m user item of
        (Inl e, m1) \<Rightarrow> (Inl e, m1)
      | (Inr p, m1) \<Rightarrow>
          (case loss m1 y p of
             Inl e \<Rightarrow> (Inl e, m1)
           | Inr g \<Rightarrow>
               (let g_loss = clamp g (- clip_gradient m1) (clip_gradient m1);
                    (i1, m2) = i_getitem m1 item;
                    (u1, m3) = u_getitem m2 user
                in case np_add (np_scale g_loss i1) (np_scale (l2 m3) u1) of
                     Inl e \<Rightarrow> (Inl e, m3)
                   | Inr u_latent_grad \<Rightarrow>
                       (let (u2, m4) = u_getitem m3 user;
                            (i2, m5) = i_getitem m4 item
                        in case np_add (np_scale g_loss u2) (np_scale (l2 m5) i2) of
                             Inl e \<Rightarrow> (Inl e, m5)
                           | Inr i_latent_grad \<Rightarrow>
                               (Inr (u_latent_grad, i_latent_grad), m5)))))"

text \<open>
  \<open>_fit_one\<close>: the gradients, then the user-side update, then the item-side update. The
  result is \<open>None\<close> when the call returns and the error when it raises, with the model
  as the call left it.
\<close>

definition fit_one ::
  "('k, 'r, 's) FunkMF \<Rightarrow> 'k \<Rightarrow> 'k \<Rightarrow> real \<Rightarrow> error option \<times> ('k, 'r, 's) FunkMF" where
  "fit_one m user item y =
     (case latent_grads m user item y of
        (Inl e, m1) \<Rightarrow> (Some e, m1)
      | (Inr (u_latent_grad, i_latent_grad), m1) \<Rightarrow>
          (let m2 = u_update m1 [user \<mapsto> u_latent_grad];
               m3 = i_update m2 [item \<mapsto> i_latent_grad]
           in (None, m3)))"

subsection \<open>Default collaborators\<close>

text \<open>
  Modelled from the spec: \<open>optim.SGD\<close> is not part of the sources at hand. The
  specification describes the default optimizer as plain stochastic gradient descent with
  a fixed learning rate, under the optimizer contract: every key of the gradients has its
  vector replaced by the old vector minus the step, every other key is returned unchanged.
  For plain gradient descent the step is the learning rate times the gradient. The state
  of the optimizer is its learning rate.
\<close>

definition sgd_update :: "real \<Rightarrow> 'k latents \<Rightarrow> 'k latents \<Rightarrow> 'k latents \<times> real" where
  "sgd_update lr w g =
     ((\<lambda>k. case g k of
             None \<Rightarrow> w k
           | Some d \<Rightarrow>
               (case w k of
                  None \<Rightarrow> None
                | Some v \<Rightarrow> Some (map2 (\<lambda>x dx. x - lr * dx) v d))),
      lr)"

text \<open>
  Modelled from the spec: \<open>optim.losses.Squared\<close> is not part of the sources at hand. The
  specification names the default loss the squared error, and a loss gradient the
  derivative of the loss in the prediction: for \<open>(y_pred - y_true)\<^sup>2\<close> that is
  \<open>2 * (y_pred - y_true)\<close>.
\<close>

definition squared_gradient :: "real \<Rightarrow> real \<Rightarrow> error + real" where
  "squared_gradient y_true y_pred = Inr (2 * (y_pred - y_true))"

subsection \<open>Streams of calls\<close>

text \<open>
  A caller's stream of \<open>predict\<close> and \<open>fit_one\<close> calls. A call that raises leaves the
  model as it was at the raise, and the stream goes on from there.
\<close>

datatype 'k call = Predict 'k 'k | Fit 'k 'k real

fun call_user :: "'k call \<Rightarrow> 'k" where
  "call_user (Predict user item) = user"
| "call_user (Fit user item y) = user"

fun call_item :: "'k call \<Rightarrow> 'k" where
  "call_item (Predict user item) = item"
| "call_item (Fit user item y) = item"

fun step :: "('k, 'r, 's) FunkMF \<Rightarrow> 'k call \<Rightarrow> ('k, 'r, 's) FunkMF" where
  "step m (Predict user item) = snd (predict_one m user item)"
| "step m (Fit user item y) = snd (fit_one m user item y)"

definition run :: "('k, 'r, 's) FunkMF \<Rightarrow> 'k call list \<Rightarrow> ('k, 'r, 's) FunkMF" where
  "run m calls = foldl step m calls"

text \<open>The keys of a sequence of accesses in the order of their first occurrence.\<close>

definition first_accesses :: "'k list \<Rightarrow> 'k list" where
  "first_accesses ks = rev (remdups (rev ks))"



subsection \<open>Generator objects shared between models\<close>





subsection \<open>Shapes and the collaborators' contracts\<close>

text \<open>
  Every vector of a store has \<open>n\<close> entries; an initializer returns a vector of the shape
  it is asked for; an optimizer, given weights and gradients of \<open>n\<close> entries each with the
  gradients' keys among the weights', returns weights with the same keys and \<open>n\<close>
  entries each.
\<close>

definition shaped :: "'k latents \<Rightarrow> nat \<Rightarrow> bool" where
  "shaped w n \<longleftrightarrow> (\<forall>k v. w k = Some v \<longrightarrow> length v = n)"

definition initializer_shaped :: "('r \<Rightarrow> nat \<Rightarrow> vec \<times> 'r) \<Rightarrow> nat \<Rightarrow> bool" where
  "initializer_shaped f n \<longleftrightarrow> (\<forall>r. length (fst (f r n)) = n)"

definition optimizer_keeps_shape ::
  "('s \<Rightarrow> 'k latents \<Rightarrow> 'k latents \<Rightarrow> 'k latents \<times> 's) \<Rightarrow> nat \<Rightarrow> bool" where
  "optimizer_keeps_shape upd n \<longleftrightarrow>
     (\<forall>s w g. dom g \<subseteq> dom w \<and> shaped w n \<and> shaped g n \<longrightarrow>
        dom (fst (upd s w g)) = dom w \<and> shaped (fst (upd s w g)) n)"

definition well_shaped :: "('k, 'r, 's) FunkMF \<Rightarrow> bool" where
  "well_shaped m \<longleftrightarrow>
     shaped (u_latents m) (n_factors m) \<and> shaped (i_latents m) (n_factors m)
     \<and> initializer_shaped (initializer m) (n_factors m)
     \<and> optimizer_keeps_shape (optimizer_update m) (n_factors m)"

subsection \<open>Concrete inputs\<close>

text \<open>
  A deterministic initializer that counts its calls: the first vector is all ones, the
  second all twos, and so on. A loss whose gradient raises. The \<open>optim\<close> package with
  plain gradient descent at learning rate \<open>1/100\<close>, the squared loss and the counting
  initializer in the place of the random one.
\<close>

definition counting_init :: "nat \<Rightarrow> nat \<Rightarrow> vec \<times> nat" where
  "counting_init r shape = (replicate shape (real (Suc r)), Suc r)"

definition raising_loss :: "real \<Rightarrow> real \<Rightarrow> error + real" where
  "raising_loss y_true y_pred = Inl LossError"

definition example_optim :: "(string, nat, real) optim" where
  "example_optim =
     \<lparr> SGD = 1 / 100, update_after_pred = sgd_update, Squared = squared_gradient,
       Normal = counting_init \<rparr>"

definition example_model :: "(string, nat, real) FunkMF" where
  "example_model = FunkMF_init example_optim 2 None None (1 / 2) None 1 0"

definition failing_model :: "(string, nat, real) FunkMF" where
  "failing_model = FunkMF_init example_optim 2 None (Some raising_loss) (1 / 2) None 1 0"



section \<open>Properties\<close>

subsection \<open>Reading the stores\<close>

lemma u_getitem_present: "u_latents m k = Some v \<Longrightarrow> u_getitem m k = (v, m)"
  by (simp add: u_getitem_def)

lemma i_getitem_present: "i_latents m k = Some v \<Longrightarrow> i_getitem m k = (v, m)"
  by (simp add: i_getitem_def)

lemma np_dot_Inr: "np_dot a b = Inr p \<Longrightarrow> length a = length b"
  by (simp add: np_dot_def split: if_splits)

lemma np_add_same_length: "length a = length b \<Longrightarrow> np_add a b = Inr (map2 (+) a b)"
  by (simp add: np_add_def)

lemma length_np_scale [simp]: "length (np_scale c v) = length v"
  by (simp add: np_scale_def)

lemma predict_one_eq:
  "predict_one m user item =
     (let u = (case u_latents m user of Some v \<Rightarrow> v
               | None \<Rightarrow> fst (initializer m (rng m) (n_factors m)));
          r1 = (case u_latents m user of Some v \<Rightarrow> rng m
                | None \<Rightarrow> snd (initializer m (rng m) (n_factors m)));
          i = (case i_latents m item of Some v \<Rightarrow> v
               | None \<Rightarrow> fst (initializer m r1 (n_factors m)));
          r2 = (case i_latents m item of Some v \<Rightarrow> r1
                | None \<Rightarrow> snd (initializer m r1 (n_factors m)))
      in (np_dot u i,
          m\<lparr>rng := r2, u_latents := (u_latents m)(user \<mapsto> u),
            i_latents := (i_latents m)(item \<mapsto> i)\<rparr>))"
  by (cases "u_latents m user"; cases "i_latents m item")
     (simp_all add: predict_one_def u_getitem_def i_getitem_def Let_def fun_upd_idem
        split: prod.splits)

lemma predict_one_reads:
  assumes "predict_one m user item = (r, m1)"
  obtains u i where "u_latents m1 user = Some u" "i_latents m1 item = Some i" "r = np_dot u i"
    "loss m1 = loss m" "l2 m1 = l2 m" "clip_gradient m1 = clip_gradient m"
    "optimizers m1 = optimizers m" "optimizer_update m1 = optimizer_update m"
    "u_optimizer m1 = u_optimizer m" "i_optimizer m1 = i_optimizer m"
    "n_factors m1 = n_factors m" "initializer m1 = initializer m"
  using assms unfolding predict_one_eq Let_def by auto

subsection \<open>The fit step, unfolded\<close>

lemma latent_grads_eq:
  assumes "predict_one m user item = (r, m1)"
  shows "latent_grads m user item y =
     (case r of
        Inl e \<Rightarrow> (Inl e, m1)
      | Inr p \<Rightarrow>
          (case loss m y p of
             Inl e \<Rightarrow> (Inl e, m1)
           | Inr g \<Rightarrow>
               (let g_loss = clamp g (- clip_gradient m) (clip_gradient m);
                    u = the (u_latents m1 user);
                    i = the (i_latents m1 item)
                in (Inr (map2 (+) (np_scale g_loss i) (np_scale (l2 m) u),
                         map2 (+) (np_scale g_loss u) (np_scale (l2 m) i)), m1))))"
proof -
  from assms obtain u i where ui: "u_latents m1 user = Some u" "i_latents m1 item = Some i"
    "r = np_dot u i" and fr: "loss m1 = loss m" "l2 m1 = l2 m" "clip_gradient m1 = clip_gradient m"
    by (rule predict_one_reads)
  show ?thesis
  proof (cases r)
    case (Inl e)
    then show ?thesis using assms by (simp add: latent_grads_def)
  next
    case (Inr p)
    with ui have "np_dot u i = Inr p" by simp
    then have len: "length u = length i" by (rule np_dot_Inr)
    show ?thesis using assms Inr ui fr len
      by (simp add: latent_grads_def u_getitem_present i_getitem_present np_add_same_length
          Let_def split: sum.splits)
  qed
qed

lemma fit_one_eq:
  assumes "predict_one m user item = (Inr p, m1)" and "loss m y p = Inr g"
  shows "fit_one m user item y =
     (let g_loss = clamp g (- clip_gradient m) (clip_gradient m);
          u = the (u_latents m1 user);
          i = the (i_latents m1 item);
          m2 = u_update m1 [user \<mapsto> map2 (+) (np_scale g_loss i) (np_scale (l2 m) u)];
          m3 = i_update m2 [item \<mapsto> map2 (+) (np_scale g_loss u) (np_scale (l2 m) i)]
      in (None, m3))"
  using assms by (simp add: fit_one_def latent_grads_eq [OF assms(1)] Let_def)

lemma u_update_fields:
  "u_latents (u_update m g) = fst (optimizer_update m (optimizers m (u_optimizer m)) (u_latents m) g)"
  "optimizers (u_update m g) =
     (optimizers m)(u_optimizer m :=
        snd (optimizer_update m (optimizers m (u_optimizer m)) (u_latents m) g))"
  "i_latents (u_update m g) = i_latents m"
  "i_optimizer (u_update m g) = i_optimizer m"
  "u_optimizer (u_update m g) = u_optimizer m"
  "optimizer_update (u_update m g) = optimizer_update m"
  "rng (u_update m g) = rng m"
  "n_factors (u_update m g) = n_factors m"
  "initializer (u_update m g) = initializer m"
  "loss (u_update m g) = loss m"
  "l2 (u_update m g) = l2 m"
  "clip_gradient (u_update m g) = clip_gradient m"
  by (simp_all add: u_update_def split: prod.splits)

lemma i_update_fields:
  "i_latents (i_update m g) = fst (optimizer_update m (optimizers m (i_optimizer m)) (i_latents m) g)"
  "optimizers (i_update m g) =
     (optimizers m)(i_optimizer m :=
        snd (optimizer_update m (optimizers m (i_optimizer m)) (i_latents m) g))"
  "u_latents (i_update m g) = u_latents m"
  "i_optimizer (i_update m g) = i_optimizer m"
  "u_optimizer (i_update m g) = u_optimizer m"
  "optimizer_update (i_update m g) = optimizer_update m"
  "rng (i_update m g) = rng m"
  "n_factors (i_update m g) = n_factors m"
  "initializer (i_update m g) = initializer m"
  "loss (i_update m g) = loss m"
  "l2 (i_update m g) = l2 m"
  "clip_gradient (i_update m g) = clip_gradient m"
  by (simp_all add: i_update_def split: prod.splits)


lemma predict_one_loss_update:
  "predict_one (m\<lparr>loss := f\<rparr>) user item =
     (case predict_one m user item of (r, m1) \<Rightarrow> (r, m1\<lparr>loss := f\<rparr>))"
  by (cases "u_latents m user"; cases "i_latents m item")
     (simp_all add: predict_one_def u_getitem_def i_getitem_def Let_def split: prod.splits)

lemma u_update_loss_update: "u_update (m\<lparr>loss := f\<rparr>) g = (u_update m g)\<lparr>loss := f\<rparr>"
  by (simp add: u_update_def split: prod.splits)

lemma i_update_loss_update: "i_update (m\<lparr>loss := f\<rparr>) g = (i_update m g)\<lparr>loss := f\<rparr>"
  by (simp add: i_update_def split: prod.splits)

lemma clamp_cases:
  "0 \<le> c \<Longrightarrow> clamp x (- c) c = (if x < - c then - c else if c < x then c else x)"
  by (simp add: clamp_def)


subsection \<open>Shapes and key sets along a stream\<close>

lemma shaped_upd: "shaped w n \<Longrightarrow> length v = n \<Longrightarrow> shaped (w(k \<mapsto> v)) n"
  by (simp add: shaped_def)

lemma shaped_single: "length v = n \<Longrightarrow> shaped [k \<mapsto> v] n"
  by (simp add: shaped_def)

lemma predict_one_well_shaped:
  assumes "well_shaped m" and "predict_one m user item = (r, m1)"
  shows "well_shaped m1"
    and "dom (u_latents m1) = insert user (dom (u_latents m))"
    and "dom (i_latents m1) = insert item (dom (i_latents m))"
proof -
  have m1: "m1 = snd (predict_one m user item)" using assms(2) by simp
  have len: "\<And>r. length (fst (initializer m r (n_factors m))) = n_factors m"
    using assms(1) by (simp add: well_shaped_def initializer_shaped_def)
  have su: "shaped (u_latents m) (n_factors m)" and si: "shaped (i_latents m) (n_factors m)"
    using assms(1) by (simp_all add: well_shaped_def)
  show "well_shaped m1"
    using assms(1) su si len unfolding m1 predict_one_eq Let_def
    by (auto simp: well_shaped_def intro!: shaped_upd split: option.splits simp: shaped_def)
  show "dom (u_latents m1) = insert user (dom (u_latents m))"
    unfolding m1 predict_one_eq Let_def by simp
  show "dom (i_latents m1) = insert item (dom (i_latents m))"
    unfolding m1 predict_one_eq Let_def by simp
qed

lemma fit_one_cases [consumes 1, case_names raised returned]:
  assumes "predict_one m user item = (r, m1)"
  obtains (raised) e where "fit_one m user item y = (Some e, m1)"
  | (returned) p g u i where "r = Inr p" "loss m y p = Inr g"
      "u_latents m1 user = Some u" "i_latents m1 item = Some i" "length u = length i"
      "fit_one m user item y =
         (None, i_update (u_update m1
            [user \<mapsto> map2 (+) (np_scale (clamp g (- clip_gradient m) (clip_gradient m)) i)
                               (np_scale (l2 m) u)])
            [item \<mapsto> map2 (+) (np_scale (clamp g (- clip_gradient m) (clip_gradient m)) u)
                               (np_scale (l2 m) i)])"
proof -
  from assms obtain u i where ui: "u_latents m1 user = Some u" "i_latents m1 item = Some i"
    "r = np_dot u i"
    by (rule predict_one_reads)
  show ?thesis
  proof (cases r)
    case (Inl e)
    then have "fit_one m user item y = (Some e, m1)"
      by (simp add: fit_one_def latent_grads_eq [OF assms])
    then show ?thesis by (rule raised)
  next
    case (Inr p)
    then have len: "length u = length i" using ui np_dot_Inr [of u i p] by simp
    show ?thesis
    proof (cases "loss m y p")
      case (Inl e)
      then have "fit_one m user item y = (Some e, m1)"
        using Inr by (simp add: fit_one_def latent_grads_eq [OF assms])
      then show ?thesis by (rule raised)
    next
      case g: (Inr g)
      have "fit_one m user item y =
         (None, i_update (u_update m1
            [user \<mapsto> map2 (+) (np_scale (clamp g (- clip_gradient m) (clip_gradient m)) i)
                               (np_scale (l2 m) u)])
            [item \<mapsto> map2 (+) (np_scale (clamp g (- clip_gradient m) (clip_gradient m)) u)
                               (np_scale (l2 m) i)])"
        using assms Inr g ui fit_one_eq [of m user item p m1 y g] by (simp add: Let_def)
      with Inr g ui(1,2) len show ?thesis by (rule returned)
    qed
  qed
qed

lemma fit_one_well_shaped:
  assumes "well_shaped m" and "fit_one m user item y = (r, m')"
  shows "well_shaped m'"
    and "dom (u_latents m') = insert user (dom (u_latents m))"
    and "dom (i_latents m') = insert item (dom (i_latents m))"
proof -
  obtain q m1 where p: "predict_one m user item = (q, m1)" by (cases "predict_one m user item")
  note w1 = predict_one_well_shaped [OF assms(1) p]
  from p have "well_shaped m' \<and> dom (u_latents m') = insert user (dom (u_latents m))
      \<and> dom (i_latents m') = insert item (dom (i_latents m))"
  proof (cases rule: fit_one_cases [where y = y])
    case (raised e)
    with assms(2) have "m' = m1" by simp
    with w1 show ?thesis by simp
  next
    case (returned p g u i)
    let ?gl = "clamp g (- clip_gradient m) (clip_gradient m)"
    let ?gu = "map2 (+) (np_scale ?gl i) (np_scale (l2 m) u)"
    let ?gi = "map2 (+) (np_scale ?gl u) (np_scale (l2 m) i)"
    let ?n = "n_factors m1"
    have lu: "length u = ?n" and li: "length i = ?n"
      using w1(1) returned(3,4) by (auto simp: well_shaped_def shaped_def)
    have k: "optimizer_keeps_shape (optimizer_update m1) ?n"
      and su: "shaped (u_latents m1) ?n" and si: "shaped (i_latents m1) ?n"
      using w1(1) by (simp_all add: well_shaped_def)
    have "dom [user \<mapsto> ?gu] \<subseteq> dom (u_latents m1)" "shaped [user \<mapsto> ?gu] ?n"
      using returned(3) lu li by (auto intro: shaped_single)
    with k su have u': "dom (u_latents (u_update m1 [user \<mapsto> ?gu])) = dom (u_latents m1)"
      "shaped (u_latents (u_update m1 [user \<mapsto> ?gu])) ?n"
      unfolding optimizer_keeps_shape_def u_update_fields by blast+
    have "dom [item \<mapsto> ?gi] \<subseteq> dom (i_latents m1)" "shaped [item \<mapsto> ?gi] ?n"
      using returned(4) lu li by (auto intro: shaped_single)
    with k si have i': "dom (fst (optimizer_update m1 s (i_latents m1) [item \<mapsto> ?gi])) = dom (i_latents m1)"
      "shaped (fst (optimizer_update m1 s (i_latents m1) [item \<mapsto> ?gi])) ?n" for s
      unfolding optimizer_keeps_shape_def by blast+
    have m': "m' = i_update (u_update m1 [user \<mapsto> ?gu]) [item \<mapsto> ?gi]"
      using returned(6) assms(2) by simp
    show ?thesis
      using u' i' w1 unfolding m'
      by (simp add: well_shaped_def i_update_fields u_update_fields)
  qed
  then show "well_shaped m'" "dom (u_latents m') = insert user (dom (u_latents m))"
    "dom (i_latents m') = insert item (dom (i_latents m))" by simp_all
qed

lemma step_well_shaped:
  assumes "well_shaped m"
  shows "well_shaped (step m c)"
    and "dom (u_latents (step m c)) = insert (call_user c) (dom (u_latents m))"
    and "dom (i_latents (step m c)) = insert (call_item c) (dom (i_latents m))"
    and "n_factors (step m c) = n_factors m"
proof -
  have "well_shaped (step m c) \<and>
      dom (u_latents (step m c)) = insert (call_user c) (dom (u_latents m)) \<and>
      dom (i_latents (step m c)) = insert (call_item c) (dom (i_latents m))"
  proof (cases c)
    case (Predict user item)
    then show ?thesis
      using predict_one_well_shaped [OF assms, of user item "fst (predict_one m user item)"
          "snd (predict_one m user item)"]
      by simp
  next
    case (Fit user item y)
    then show ?thesis
      using fit_one_well_shaped [OF assms, of user item y "fst (fit_one m user item y)"
          "snd (fit_one m user item y)"]
      by simp
  qed
  then show "well_shaped (step m c)"
    "dom (u_latents (step m c)) = insert (call_user c) (dom (u_latents m))"
    "dom (i_latents (step m c)) = insert (call_item c) (dom (i_latents m))"
    by simp_all
  show "n_factors (step m c) = n_factors m"
  proof (cases c)
    case (Predict user item)
    then show ?thesis by (simp add: predict_one_eq Let_def)
  next
    case (Fit user item y)
    obtain q m1 where p: "predict_one m user item = (q, m1)" by (cases "predict_one m user item")
    then have n1: "n_factors m1 = n_factors m" by (auto elim: predict_one_reads)
    from p show ?thesis
      by (cases rule: fit_one_cases [where y = y])
         (simp_all add: Fit n1 i_update_fields u_update_fields)
  qed
qed

lemma run_well_shaped:
  "well_shaped m \<Longrightarrow>
     well_shaped (run m cs)
     \<and> n_factors (run m cs) = n_factors m
     \<and> dom (u_latents (run m cs)) = dom (u_latents m) \<union> call_user ` set cs
     \<and> dom (i_latents (run m cs)) = dom (i_latents m) \<union> call_item ` set cs"
proof (induction cs arbitrary: m)
  case Nil
  then show ?case by (simp add: run_def)
next
  case (Cons c cs)
  from step_well_shaped [OF Cons.prems, of c] Cons.IH [of "step m c"]
  show ?case by (auto simp: run_def)
qed

subsection \<open>The concrete inputs, evaluated\<close>

lemmas example_defs = example_model_def failing_model_def FunkMF_init_def example_optim_def
  counting_init_def raising_loss_def sgd_update_def squared_gradient_def

lemma example_predict:
  "predict_one example_model ''Alice'' ''Superman'' =
     (Inr 4, example_model\<lparr>rng := 2, u_latents := [''Alice'' \<mapsto> [1, 1]],
        i_latents := [''Superman'' \<mapsto> [2, 2]]\<rparr>)"
  by (simp add: predict_one_eq example_defs Let_def np_dot_def numeral_2_eq_2)

lemma sum_list_map2_nth:
  "length a = length b \<Longrightarrow> sum_list (map2 (*) a b) = (\<Sum>j<length a. a ! j * b ! (j::nat) :: real)"
  by (induction a b rule: list_induct2)
     (simp_all add: sum.lessThan_Suc_shift del: sum.lessThan_Suc)

lemma failing_predict:
  "predict_one failing_model ''Alice'' ''Superman'' =
     (Inr 4, failing_model\<lparr>rng := 2, u_latents := [''Alice'' \<mapsto> [1, 1]],
        i_latents := [''Superman'' \<mapsto> [2, 2]]\<rparr>)"
  by (simp add: predict_one_eq example_defs Let_def np_dot_def numeral_2_eq_2)

lemma failing_fit:
  "fit_one failing_model ''Alice'' ''Superman'' 8 =
     (Some LossError, failing_model\<lparr>rng := 2, u_latents := [''Alice'' \<mapsto> [1, 1]],
        i_latents := [''Superman'' \<mapsto> [2, 2]]\<rparr>)"
  by (simp add: fit_one_def latent_grads_eq [OF failing_predict])
     (simp add: example_defs)

subsection \<open>The default collaborators keep their contracts\<close>

lemma sgd_keeps_shape: "optimizer_keeps_shape sgd_update n"
  unfolding optimizer_keeps_shape_def
proof (intro allI impI conjI)
  fix s :: real and w g :: "'a latents"
  assume a: "dom g \<subseteq> dom w \<and> shaped w n \<and> shaped g n"
  show "dom (fst (sgd_update s w g)) = dom w"
    by (auto simp: sgd_update_def dom_def split: option.splits)
  show "shaped (fst (sgd_update s w g)) n"
    using a by (auto simp: sgd_update_def shaped_def split: option.splits)
qed

lemma counting_init_shaped: "initializer_shaped counting_init n"
  by (simp add: initializer_shaped_def counting_init_def)

lemma well_shaped_init:
  "well_shaped (FunkMF_init opt n optimizer ls reg ini clip seed) \<longleftrightarrow>
     initializer_shaped (case ini of None \<Rightarrow> Normal opt | Some (f, r) \<Rightarrow> f) n
     \<and> optimizer_keeps_shape (update_after_pred opt) n"
  by (simp add: well_shaped_def FunkMF_init_def shaped_def)

lemma example_model_well_shaped: "well_shaped example_model"
  by (simp add: example_model_def well_shaped_init example_optim_def sgd_keeps_shape
      counting_init_shaped)

subsection \<open>Decay under plain gradient descent\<close>











section \<open>The claims\<close>

subsection \<open>C3: both gradients come from the same snapshot\<close>

text \<open>
  C3. Let a call \<open>fit_one(user, item, y)\<close> get past the prediction and the loss gradient,
  let \<open>m1\<close> be the model after the reads of the prediction, \<open>u_vec\<close> and \<open>i_vec\<close> the
  vectors stored there for the user and the item (the vectors before any update) and
  \<open>g_loss\<close> the clamped loss gradient. Then the gradient dictionaries are
  \<open>{user: g_loss * i_vec + l2 * u_vec}\<close> and \<open>{item: g_loss * u_vec + l2 * i_vec}\<close>; the
  user-side optimizer is run on the user store of \<open>m1\<close> with the first and the item-side
  optimizer on the item store of \<open>m1\<close> with the second, so the new user store is a
  function of the old item vector and the new item store of the old user vector.
\<close>

theorem fit_one_snapshot_gradients:
  assumes "predict_one m user item = (Inr p, m1)"
    and "loss m y p = Inr g"
    and "u_latents m1 user = Some u_vec"
    and "i_latents m1 item = Some i_vec"
  shows "let g_loss = clamp g (- clip_gradient m) (clip_gradient m);
             u_latent_grad = map2 (+) (np_scale g_loss i_vec) (np_scale (l2 m) u_vec);
             i_latent_grad = map2 (+) (np_scale g_loss u_vec) (np_scale (l2 m) i_vec);
             m2 = u_update m1 [user \<mapsto> u_latent_grad]
         in latent_grads m user item y = (Inr (u_latent_grad, i_latent_grad), m1)
          \<and> fit_one m user item y = (None, i_update m2 [item \<mapsto> i_latent_grad])
          \<and> u_latents (snd (fit_one m user item y)) =
              fst (optimizer_update m (optimizers m (u_optimizer m)) (u_latents m1)
                     [user \<mapsto> u_latent_grad])
          \<and> i_latents (snd (fit_one m user item y)) =
              fst (optimizer_update m (optimizers m2 (i_optimizer m)) (i_latents m1)
                     [item \<mapsto> i_latent_grad])"
proof -
  from assms(1) obtain u i where fr: "optimizers m1 = optimizers m"
    "optimizer_update m1 = optimizer_update m" "u_optimizer m1 = u_optimizer m"
    "i_optimizer m1 = i_optimizer m"
    by (rule predict_one_reads)
  show ?thesis
    using assms fr
    by (simp add: latent_grads_eq [OF assms(1)] fit_one_eq [OF assms(1,2)] Let_def
        u_update_fields i_update_fields)
qed

text \<open>
  The witness: the example model, whose first two vectors are \<open>[1, 1]\<close> for Alice and
  \<open>[2, 2]\<close> for Superman; the prediction is 4, the raw loss gradient \<open>-8\<close> at target 8,
  clamped to \<open>-1\<close>.
\<close>

theorem fit_one_snapshot_gradients_witness:
  "fst (latent_grads example_model ''Alice'' ''Superman'' 8) = Inr ([- 3 / 2, - 3 / 2], [0, 0])
   \<and> u_latents (snd (fit_one example_model ''Alice'' ''Superman'' 8)) ''Alice''
       = Some [203 / 200, 203 / 200]
   \<and> i_latents (snd (fit_one example_model ''Alice'' ''Superman'' 8)) ''Superman''
       = Some [2, 2]"
proof -
  define m1 where "m1 = example_model\<lparr>rng := 2, u_latents := [''Alice'' \<mapsto> [1, 1]],
      i_latents := [''Superman'' \<mapsto> [2, 2]]\<rparr>"
  have h1: "predict_one example_model ''Alice'' ''Superman'' = (Inr 4, m1)"
    by (simp add: example_predict m1_def)
  have h2: "loss example_model 8 4 = Inr (- 8)"
    by (simp add: example_defs)
  have h3: "u_latents m1 ''Alice'' = Some [1, 1]"
    by (simp add: m1_def)
  have h4: "i_latents m1 ''Superman'' = Some [2, 2]"
    by (simp add: m1_def)
  show ?thesis
    using fit_one_snapshot_gradients [OF h1 h2 h3 h4]
    by (simp add: Let_def clamp_def np_scale_def m1_def example_defs u_update_fields
        i_update_fields)
qed

subsection \<open>C4: the prediction is the inner product, and reads initialise\<close>

text \<open>
  C4. \<open>predict(user, item)\<close> returns \<open>np.dot\<close> of the user's and the item's vector, each
  the stored one or, for a key not in its store, the one the initializer produces (the
  user's first, the item's after it); for vectors of equal length that is the sum of the
  products of their entries. The model afterwards is the model before with these two
  vectors stored under the two keys and the initializer's generator advanced, nothing
  else; when both keys were present the model is unchanged. The insertion happens in the
  call itself, whether or not a fit follows.
\<close>

theorem predict_one_dot_product:
  "let u = (case u_latents m user of Some v \<Rightarrow> v
            | None \<Rightarrow> fst (initializer m (rng m) (n_factors m)));
       r1 = (case u_latents m user of Some v \<Rightarrow> rng m
             | None \<Rightarrow> snd (initializer m (rng m) (n_factors m)));
       i = (case i_latents m item of Some v \<Rightarrow> v
            | None \<Rightarrow> fst (initializer m r1 (n_factors m)));
       r2 = (case i_latents m item of Some v \<Rightarrow> r1
             | None \<Rightarrow> snd (initializer m r1 (n_factors m)))
   in predict_one m user item =
        (np_dot u i,
         m\<lparr>rng := r2, u_latents := (u_latents m)(user \<mapsto> u),
           i_latents := (i_latents m)(item \<mapsto> i)\<rparr>)
    \<and> (length u = length i \<longrightarrow>
          fst (predict_one m user item) = Inr (\<Sum>j<length u. u ! j * i ! j))
    \<and> (length u \<noteq> length i \<longrightarrow> fst (predict_one m user item) = Inl ValueError)
    \<and> (u_latents m user \<noteq> None \<and> i_latents m item \<noteq> None \<longrightarrow>
          snd (predict_one m user item) = m)"
  by (cases "u_latents m user"; cases "i_latents m item")
     (simp_all add: predict_one_eq Let_def np_dot_def sum_list_map2_nth fun_upd_idem)

text \<open>
  The witness: a first prediction on the fresh example model inserts both vectors and
  returns 4; a second prediction returns 4 again and changes nothing.
\<close>

theorem predict_one_dot_product_witness:
  "predict_one example_model ''Alice'' ''Superman'' =
     (Inr 4, example_model\<lparr>rng := 2, u_latents := [''Alice'' \<mapsto> [1, 1]],
        i_latents := [''Superman'' \<mapsto> [2, 2]]\<rparr>)
   \<and> predict_one (snd (predict_one example_model ''Alice'' ''Superman'')) ''Alice'' ''Superman''
       = (Inr 4, snd (predict_one example_model ''Alice'' ''Superman''))"
  using predict_one_dot_product [of example_model "''Alice''" "''Superman''"]
    predict_one_dot_product [of "snd (predict_one example_model ''Alice'' ''Superman'')"
      "''Alice''" "''Superman''"]
  by (simp add: Let_def example_defs np_dot_def numeral_2_eq_2 prod_eq_iff)

subsection \<open>C5: the loss gradient is clamped\<close>

text \<open>
  C5. For a model with clip bound \<open>c > 0\<close> and a call of \<open>fit_one\<close> that gets past the
  prediction and the loss gradient \<open>raw\<close>, let \<open>g_loss\<close> be \<open>raw\<close> clamped to \<open>[-c, c]\<close>.
  The two latent gradients are built with \<open>g_loss\<close>, and these are the gradients that
  \<open>fit_one\<close> hands to the two optimizers: the call returns, the new user store is what the
  user-side optimizer makes of the old user store and \<open>{user: g_loss * i_vec + l2 * u_vec}\<close>,
  and the new item store what the item-side optimizer makes of the old item store and
  \<open>{item: g_loss * u_vec + l2 * i_vec}\<close>. When \<open>\<bar>raw\<bar> > c\<close>, the call on the model whose
  loss gradient is constantly \<open>-c\<close> (for negative \<open>raw\<close>) or \<open>c\<close> (for positive \<open>raw\<close>)
  returns as well and leaves the same model.
\<close>

theorem fit_one_clips_gradient:
  assumes "0 < clip_gradient m"
    and "predict_one m user item = (Inr p, m1)"
    and "loss m y p = Inr raw"
  shows "let c = clip_gradient m;
             g_loss = (if raw < - c then - c else if c < raw then c else raw);
             u_vec = the (u_latents m1 user);
             i_vec = the (i_latents m1 item);
             u_latent_grad = map2 (+) (np_scale g_loss i_vec) (np_scale (l2 m) u_vec);
             i_latent_grad = map2 (+) (np_scale g_loss u_vec) (np_scale (l2 m) i_vec);
             m2 = u_update m1 [user \<mapsto> u_latent_grad];
             bound = (\<lambda>y_true y_pred. Inr (if raw < 0 then - c else c))
         in - c \<le> g_loss \<and> g_loss \<le> c
          \<and> latent_grads m user item y = (Inr (u_latent_grad, i_latent_grad), m1)
          \<and> fit_one m user item y = (None, i_update m2 [item \<mapsto> i_latent_grad])
          \<and> u_latents (snd (fit_one m user item y)) =
              fst (optimizer_update m (optimizers m (u_optimizer m)) (u_latents m1)
                     [user \<mapsto> u_latent_grad])
          \<and> i_latents (snd (fit_one m user item y)) =
              fst (optimizer_update m (optimizers m2 (i_optimizer m)) (i_latents m1)
                     [item \<mapsto> i_latent_grad])
          \<and> (c < \<bar>raw\<bar> \<longrightarrow>
               fit_one (m\<lparr>loss := bound\<rparr>) user item y =
                 (None, (i_update m2 [item \<mapsto> i_latent_grad])\<lparr>loss := bound\<rparr>))"
proof -
  let ?c = "clip_gradient m"
  let ?b = "\<lambda>(y_true::real) (y_pred::real). (Inr (if raw < 0 then - ?c else ?c) :: error + real)"
  from assms(2) obtain u i where fr: "optimizers m1 = optimizers m"
    "optimizer_update m1 = optimizer_update m" "u_optimizer m1 = u_optimizer m"
    "i_optimizer m1 = i_optimizer m"
    by (rule predict_one_reads)
  have cl: "clamp raw (- ?c) ?c = (if raw < - ?c then - ?c else if ?c < raw then ?c else raw)"
    using assms(1) by (simp add: clamp_cases)
  have p': "predict_one (m\<lparr>loss := ?b\<rparr>) user item = (Inr p, m1\<lparr>loss := ?b\<rparr>)"
    by (simp add: predict_one_loss_update assms(2))
  have l': "loss (m\<lparr>loss := ?b\<rparr>) y p = Inr (if raw < 0 then - ?c else ?c)"
    by simp
  have big: "?c < \<bar>raw\<bar> \<Longrightarrow> clamp (if raw < 0 then - ?c else ?c) (- ?c) ?c = clamp raw (- ?c) ?c"
    using assms(1) by (auto simp: clamp_def)
  have "?c < \<bar>raw\<bar> \<Longrightarrow> fit_one (m\<lparr>loss := ?b\<rparr>) user item y =
      (fst (fit_one m user item y), (snd (fit_one m user item y))\<lparr>loss := ?b\<rparr>)"
    using big
    by (simp add: fit_one_eq [OF p' l'] fit_one_eq [OF assms(2,3)] Let_def
        u_update_loss_update i_update_loss_update)
  then show ?thesis
    using assms(1) cl fr
    by (simp add: latent_grads_eq [OF assms(2)] fit_one_eq [OF assms(2,3)] assms(3) Let_def
        u_update_fields i_update_fields)
qed

text \<open>
  The witness: the example model has clip bound 1 and the raw gradient is \<open>-8\<close>, so the
  gradient used is \<open>-1\<close>: Alice moves from \<open>[1, 1]\<close> to \<open>[203/200, 203/200]\<close> (the raw
  gradient would take her to \<open>[231/200, 231/200]\<close>), and so she does under the loss whose
  gradient is constantly \<open>-1\<close>.
\<close>

theorem fit_one_clips_gradient_witness:
  "fst (latent_grads example_model ''Alice'' ''Superman'' 8) = Inr ([- 3 / 2, - 3 / 2], [0, 0])
   \<and> fst (fit_one example_model ''Alice'' ''Superman'' 8) = None
   \<and> u_latents (snd (fit_one example_model ''Alice'' ''Superman'' 8)) ''Alice''
       = Some [203 / 200, 203 / 200]
   \<and> i_latents (snd (fit_one example_model ''Alice'' ''Superman'' 8)) ''Superman''
       = Some [2, 2]
   \<and> u_latents (snd (fit_one (example_model\<lparr>loss := \<lambda>y_true y_pred. Inr (- 1)\<rparr>)
         ''Alice'' ''Superman'' 8)) ''Alice''
       = Some [203 / 200, 203 / 200]"
proof -
  define m1 where "m1 = example_model\<lparr>rng := 2, u_latents := [''Alice'' \<mapsto> [1, 1]],
      i_latents := [''Superman'' \<mapsto> [2, 2]]\<rparr>"
  have h1: "0 < clip_gradient example_model"
    by (simp add: example_defs)
  have p: "predict_one example_model ''Alice'' ''Superman'' = (Inr 4, m1)"
    by (simp add: example_predict m1_def)
  have h2: "loss example_model 8 4 = Inr (- 8)"
    by (simp add: example_defs)
  have c: "clip_gradient example_model = 1" "l2 example_model = 1 / 2"
    "optimizer_update example_model = sgd_update"
    "optimizers example_model = (\<lambda>r. 1 / 100)"
    "u_optimizer example_model = 0" "i_optimizer example_model = 1"
    by (simp_all add: example_defs)
  have m: "u_latents m1 = [''Alice'' \<mapsto> [1, 1]]" "i_latents m1 = [''Superman'' \<mapsto> [2, 2]]"
    "optimizer_update m1 = sgd_update" "optimizers m1 = (\<lambda>r. 1 / 100)"
    "u_optimizer m1 = 0" "i_optimizer m1 = 1"
    by (simp_all add: m1_def c)
  show ?thesis
    using fit_one_clips_gradient [OF h1 p h2]
    by (simp add: Let_def c m np_scale_def u_update_fields i_update_fields sgd_update_def)
qed

subsection \<open>C1: the two optimizer fields\<close>

text \<open>
  C1 asks for two distinct optimizer instances in every constructed model. On the model
  built with a given optimizer the two fields hold the same reference, and the user-side
  update leaves its new state in the object the item-side update will use; on the model
  built with \<open>optimizer=None\<close> the references differ and the user-side update leaves the
  item side's optimizer as it was constructed.
\<close>

theorem given_optimizer_is_shared:
  "u_optimizer (FunkMF_init opt n (Some s) ls reg ini clip seed)
     = i_optimizer (FunkMF_init opt n (Some s) ls reg ini clip seed)
   \<and> optimizers (u_update (FunkMF_init opt n (Some s) ls reg ini clip seed) g)
        (i_optimizer (FunkMF_init opt n (Some s) ls reg ini clip seed))
     = snd (update_after_pred opt s Map.empty g)
   \<and> u_optimizer (FunkMF_init opt n None ls reg ini clip seed)
     \<noteq> i_optimizer (FunkMF_init opt n None ls reg ini clip seed)
   \<and> optimizers (u_update (FunkMF_init opt n None ls reg ini clip seed) g)
        (i_optimizer (FunkMF_init opt n None ls reg ini clip seed))
     = SGD opt"
  by (simp add: FunkMF_init_def u_update_fields)

subsection \<open>C2: what a raising fit leaves behind\<close>

text \<open>
  C2 as stated (a fit that raises has changed no state, inserted no key) fails on the
  fresh model whose loss raises: the call raises, and Alice and Superman, absent before,
  have vectors afterwards, and the initializer's generator has advanced twice.
\<close>

theorem fit_one_atomic_counterexample:
  "fst (fit_one failing_model ''Alice'' ''Superman'' 8) = Some LossError
   \<and> u_latents failing_model ''Alice'' = None
   \<and> u_latents (snd (fit_one failing_model ''Alice'' ''Superman'' 8)) ''Alice'' = Some [1, 1]
   \<and> i_latents failing_model ''Superman'' = None
   \<and> i_latents (snd (fit_one failing_model ''Alice'' ''Superman'' 8)) ''Superman'' = Some [2, 2]
   \<and> rng failing_model = 0
   \<and> rng (snd (fit_one failing_model ''Alice'' ''Superman'' 8)) = 2"
  by (simp add: failing_fit) (simp add: example_defs)

text \<open>
  C2, amended. When \<open>fit_one\<close> raises, it is \<open>np.dot\<close> or the loss gradient that raised,
  and the model is the one that \<open>predict(user, item)\<close> leaves: no optimizer has run, every
  vector stored before is stored unchanged, and the key sets of the two stores are the
  old ones with the user's and the item's key added.
\<close>

theorem fit_one_raise_effects:
  assumes "fit_one m user item y = (Some e, m')"
  shows "m' = snd (predict_one m user item)
       \<and> (fst (predict_one m user item) = Inl e
          \<or> (\<exists>p. fst (predict_one m user item) = Inr p \<and> loss m y p = Inl e))
       \<and> optimizers m' = optimizers m
       \<and> (\<forall>k v. u_latents m k = Some v \<longrightarrow> u_latents m' k = Some v)
       \<and> (\<forall>k v. i_latents m k = Some v \<longrightarrow> i_latents m' k = Some v)
       \<and> dom (u_latents m') = insert user (dom (u_latents m))
       \<and> dom (i_latents m') = insert item (dom (i_latents m))"
proof -
  obtain q m1 where p: "predict_one m user item = (q, m1)" by (cases "predict_one m user item")
  have m1: "m' = m1" and q: "q = Inl e \<or> (\<exists>p. q = Inr p \<and> loss m y p = Inl e)"
    using assms
    by (auto simp: fit_one_def latent_grads_eq [OF p] Let_def split: sum.splits)
  have "optimizers (snd (predict_one m user item)) = optimizers m"
    "\<forall>k v. u_latents m k = Some v \<longrightarrow> u_latents (snd (predict_one m user item)) k = Some v"
    "\<forall>k v. i_latents m k = Some v \<longrightarrow> i_latents (snd (predict_one m user item)) k = Some v"
    "dom (u_latents (snd (predict_one m user item))) = insert user (dom (u_latents m))"
    "dom (i_latents (snd (predict_one m user item))) = insert item (dom (i_latents m))"
    unfolding predict_one_eq Let_def by (auto split: option.splits)
  then show ?thesis using m1 q p by simp
qed

text \<open>The witness: the same call on the model whose loss raises.\<close>

theorem fit_one_raise_effects_witness:
  "snd (fit_one failing_model ''Alice'' ''Superman'' 8)
     = snd (predict_one failing_model ''Alice'' ''Superman'')
   \<and> optimizers (snd (fit_one failing_model ''Alice'' ''Superman'' 8)) = optimizers failing_model
   \<and> dom (u_latents (snd (fit_one failing_model ''Alice'' ''Superman'' 8))) = {''Alice''}
   \<and> dom (i_latents (snd (fit_one failing_model ''Alice'' ''Superman'' 8))) = {''Superman''}"
proof -
  have h: "fit_one failing_model ''Alice'' ''Superman'' 8
      = (Some LossError, snd (fit_one failing_model ''Alice'' ''Superman'' 8))"
    by (simp add: failing_fit)
  have d: "dom (u_latents failing_model) = {}" "dom (i_latents failing_model) = {}"
    by (simp_all add: example_defs)
  note r = fit_one_raise_effects [OF h, unfolded d]
  from r have a: "snd (fit_one failing_model ''Alice'' ''Superman'' 8)
     = snd (predict_one failing_model ''Alice'' ''Superman'')" by (rule conjunct1)
  from r have b: "optimizers (snd (fit_one failing_model ''Alice'' ''Superman'' 8))
     = optimizers failing_model" by (elim conjE)
  from r have c: "dom (u_latents (snd (fit_one failing_model ''Alice'' ''Superman'' 8)))
     = {''Alice''}" by (elim conjE)
  from r have e: "dom (i_latents (snd (fit_one failing_model ''Alice'' ''Superman'' 8)))
     = {''Superman''}" by (elim conjE)
  from a b c e show ?thesis by (intro conjI)
qed

subsection \<open>C8: lazy initialisation and the generator behind it\<close>




subsection \<open>C9: no latent factors\<close>



subsection \<open>C10: one initializer behind both stores\<close>

text \<open>
  C10. Both stores draw their initial vectors from the one initializer, in the order of
  the first accesses across both stores. Take two users and two items, a fresh model,
  and two streams of predictions: \<open>(user1, item1), (user2, item2)\<close> and
  \<open>(user1, item1), (user1, item2), (user2, item2)\<close>. The users are first seen in the same
  order in both, and so are the items, but \<open>user2\<close> is initialised with the third output
  of the initializer in the first stream and the fourth in the second, and \<open>item2\<close> the
  other way round; so whenever these two outputs differ, the same key gets different
  initial vectors in the two streams.
\<close>

theorem shared_initializer_interleaving:
  assumes "user1 \<noteq> user2" and "item1 \<noteq> item2"
  shows "let m = FunkMF_init opt n optimizer ls reg ini clip seed;
             f = (case ini of None \<Rightarrow> Normal opt | Some (f, r) \<Rightarrow> f);
             r0 = (case ini of None \<Rightarrow> seed | Some (f, r) \<Rightarrow> r);
             r1 = snd (f r0 n); r2 = snd (f r1 n); r3 = snd (f r2 n);
             run_a = [Predict user1 item1, Predict user2 item2];
             run_b = [Predict user1 item1, Predict user1 item2, Predict user2 item2]
         in first_accesses (map call_user run_a) = first_accesses (map call_user run_b)
          \<and> first_accesses (map call_item run_a) = first_accesses (map call_item run_b)
          \<and> u_latents (run m run_a) user2 = Some (fst (f r2 n))
          \<and> u_latents (run m run_b) user2 = Some (fst (f r3 n))
          \<and> i_latents (run m run_a) item2 = Some (fst (f r3 n))
          \<and> i_latents (run m run_b) item2 = Some (fst (f r2 n))"
  using assms
  by (simp add: Let_def first_accesses_def run_def predict_one_eq FunkMF_init_def)

text \<open>
  The witness: with the counting initializer Bob starts at \<open>[3, 3]\<close> in the first stream
  and at \<open>[4, 4]\<close> in the second, Terminator the other way round.
\<close>

theorem shared_initializer_interleaving_witness:
  "u_latents (run example_model [Predict ''Alice'' ''Superman'', Predict ''Bob'' ''Terminator''])
     ''Bob'' = Some [3, 3]
   \<and> u_latents (run example_model [Predict ''Alice'' ''Superman'',
        Predict ''Alice'' ''Terminator'', Predict ''Bob'' ''Terminator'']) ''Bob'' = Some [4, 4]
   \<and> i_latents (run example_model [Predict ''Alice'' ''Superman'', Predict ''Bob'' ''Terminator''])
     ''Terminator'' = Some [4, 4]
   \<and> i_latents (run example_model [Predict ''Alice'' ''Superman'',
        Predict ''Alice'' ''Terminator'', Predict ''Bob'' ''Terminator'']) ''Terminator''
       = Some [3, 3]"
proof -
  have h1: "''Alice'' \<noteq> ''Bob''" by simp
  have h2: "''Superman'' \<noteq> ''Terminator''" by simp
  show ?thesis
    using shared_initializer_interleaving [OF h1 h2, of example_optim 2 None None "1 / 2" None 1 0]
    by (simp add: Let_def example_model_def example_optim_def counting_init_def numeral_2_eq_2)
qed

subsection \<open>C7: the stores hold exactly the referenced keys\<close>

text \<open>
  C7. Let the initializer return vectors of the shape asked for and the optimizer keep
  the keys and the vector lengths of the weights it is given (the contracts of the two
  collaborators), and let every stored vector have \<open>n_factors\<close> entries. Then after any
  stream of \<open>predict\<close> and \<open>fit_one\<close> calls, raising or not, the keys of the user store are
  the keys it had before together with the users of the calls, no key is lost, and every
  stored vector has \<open>n_factors\<close> entries; the same holds for the items. Starting from a
  freshly constructed model, the number of entries of the user store is the number of
  distinct users referenced, and likewise for the items.
\<close>

theorem stores_hold_referenced_keys:
  assumes "well_shaped m"
  shows "dom (u_latents (run m calls)) = dom (u_latents m) \<union> call_user ` set calls
       \<and> dom (i_latents (run m calls)) = dom (i_latents m) \<union> call_item ` set calls
       \<and> shaped (u_latents (run m calls)) (n_factors m)
       \<and> shaped (i_latents (run m calls)) (n_factors m)
       \<and> (m = FunkMF_init opt n optimizer ls reg ini clip seed \<longrightarrow>
            card (dom (u_latents (run m calls))) = card (call_user ` set calls)
          \<and> card (dom (i_latents (run m calls))) = card (call_item ` set calls))"
proof -
  note r = run_well_shaped [OF assms, of calls]
  have "well_shaped (run m calls)" using r by simp
  then have s: "shaped (u_latents (run m calls)) (n_factors m)"
    "shaped (i_latents (run m calls)) (n_factors m)"
    using r by (simp_all add: well_shaped_def)
  have "m = FunkMF_init opt n optimizer ls reg ini clip seed \<Longrightarrow>
      dom (u_latents m) = {} \<and> dom (i_latents m) = {}"
    by (simp add: FunkMF_init_def)
  with r s show ?thesis by auto
qed

text \<open>
  The witness: the example model after a fit for Alice, a prediction for Bob and a second
  fit for Alice holds two users and two items.
\<close>

theorem stores_hold_referenced_keys_witness:
  "dom (u_latents (run example_model
      [Fit ''Alice'' ''Superman'' 8, Predict ''Bob'' ''Superman'', Fit ''Alice'' ''Terminator'' 9]))
     = {''Alice'', ''Bob''}
   \<and> dom (i_latents (run example_model
      [Fit ''Alice'' ''Superman'' 8, Predict ''Bob'' ''Superman'', Fit ''Alice'' ''Terminator'' 9]))
     = {''Superman'', ''Terminator''}
   \<and> card (dom (u_latents (run example_model
      [Fit ''Alice'' ''Superman'' 8, Predict ''Bob'' ''Superman'', Fit ''Alice'' ''Terminator'' 9])))
     = 2
   \<and> shaped (u_latents (run example_model
      [Fit ''Alice'' ''Superman'' 8, Predict ''Bob'' ''Superman'', Fit ''Alice'' ''Terminator'' 9])) 2"
proof -
  have d: "dom (u_latents example_model) = {}" "dom (i_latents example_model) = {}"
    "n_factors example_model = 2"
    by (simp_all add: example_model_def FunkMF_init_def)
  have e: "example_model = FunkMF_init example_optim 2 None None (1 / 2) None 1 0"
    by (simp add: example_model_def)
  show ?thesis
    using stores_hold_referenced_keys [OF example_model_well_shaped,
        of "[Fit ''Alice'' ''Superman'' 8, Predict ''Bob'' ''Superman'',
             Fit ''Alice'' ''Terminator'' 9]" example_optim 2 None None "1 / 2" None 1 0]
    by (simp add: d e [symmetric] insert_commute)
qed

subsection \<open>C6: decay under regularisation alone\<close>




end
